theory Spec2Isabelle
  imports Complex_Main "HOL-Library.Char_ord" "HOL-Library.List_Lexorder"
begin

section \<open>Data model\<close>

text \<open>
  The statement is a pandas data frame; it is modelled as the list of its rows, in row
  order. A row carries the columns of the bank statement and the two columns that
  \<^verbatim>\<open>process_transactions\<close> adds. A column that holds no value in a row (pandas' null,
  or a key that was never assigned in the row) is \<open>None\<close>. Amounts are exact rationals:
  the binary floating point of pandas is idealised to exact arithmetic, only the values
  that a division by zero produces are kept apart (see \<open>pyfloat\<close>).
\<close>

record row =
  transaction_date :: string
  transaction_description :: string
  debit_amount :: rat
  credit_amount :: "rat option"
  category :: "string option"
  category_family :: "string option"

text \<open>
  A Python \<^verbatim>\<open>dict\<close> keeps its keys in insertion order and the code iterates over it, so
  both mappings are association lists in iteration order. The values are what the JSON
  documents hold: a category name per merchant, a list of category names per family.
\<close>

type_synonym merchant_dict = "(string \<times> string) list"
type_synonym family_dict = "(string \<times> string list) list"

record expense_tracker =
  statement_name :: string
  statement :: "row list"
  merchant_mapping :: merchant_dict
  expense_category_family_mapping :: family_dict

text \<open>The files the tracker reads and writes, by path, each with its parsed content.\<close>

datatype file_content =
    Csv "row list"
  | MerchantJson merchant_dict
  | FamilyJson family_dict

type_synonym files = "string \<rightharpoonup> file_content"

datatype py_error = FileNotFoundError | ParseError

text \<open>
  The value of a float expression of pandas: a finite number, or one of the three values
  that IEEE arithmetic gives for a division by zero.
\<close>

datatype pyfloat = Finite rat | PosInf | NegInf | NaN

section \<open>Constants of the module\<close>

definition MERCHANT_MAPPING :: string where
  "MERCHANT_MAPPING = ''merchant_category_mapping.json''"

definition EXPENSE_CATEGORY_FAMILY_MAPPING :: string where
  "EXPENSE_CATEGORY_FAMILY_MAPPING = ''expense_category_family_mapping.json''"

definition STATEMENTS_DIR :: string where
  "STATEMENTS_DIR = ''./statements''"

section \<open>Library functions the module calls\<close>

text \<open>
  \<^verbatim>\<open>str.lower\<close>, on the ASCII letters (a character is a byte here; merchant descriptions
  of a bank statement are ASCII). The capital letters are the codes 65 to 90, and each
  small letter is its capital plus 32, which for these codes is the capital with the
  bit of value 32 set.
\<close>

definition lower_char :: "char \<Rightarrow> char" where
  "lower_char c =
     (if CHR ''A'' \<le> c \<and> c \<le> CHR ''Z''
      then (case c of Char b0 b1 b2 b3 b4 b5 b6 b7 \<Rightarrow> Char b0 b1 b2 b3 b4 True b6 b7)
      else c)"

definition lower :: "string \<Rightarrow> string" where
  "lower s = map lower_char s"

text \<open>
  Rounding to the nearest integer with ties to the even one: what Python's \<^verbatim>\<open>round\<close>
  and numpy's \<^verbatim>\<open>round\<close> (behind \<^verbatim>\<open>round(series, 0)\<close>) both do.
\<close>

definition round_half_even :: "rat \<Rightarrow> int" where
  "round_half_even x =
     (let f = \<lfloor>x\<rfloor>; d = x - of_int f
      in if d < 1 / 2 then f
         else if 1 / 2 < d then f + 1
         else if even f then f else f + 1)"

text \<open>
  \<^verbatim>\<open>fuzz.ratio\<close> belongs to the fuzzywuzzy package, not to this repository, so the
  operations below take the similarity function as their parameter \<open>ratio\<close> and the
  general theorems hold for every such function. To evaluate the operations at concrete
  inputs, \<open>fuzz_ratio\<close> gives the package's value: equal strings score 100, an empty
  string scores 0, and otherwise the score is \<^verbatim>\<open>int(round(100 * 2 * M / T))\<close> with \<open>T\<close>
  the sum of the two lengths and \<open>M\<close> the number of matching characters, which the
  python-Levenshtein backend computes as the length of a longest common subsequence.
  (The difflib backend counts the matching blocks of Ratcliff and Obershelp instead.
  These blocks form a common subsequence, so that count is never larger, and the two
  agree whenever one string is a prefix of the other, where \<open>M\<close> is the length of the
  shorter string: the case of every score of 80 or more that is evaluated below.)
\<close>

text \<open>The length of a longest common subsequence of two strings.\<close>

fun lcs :: "string \<Rightarrow> string \<Rightarrow> nat" where
  "lcs [] ys = 0"
| "lcs (x # xs) [] = 0"
| "lcs (x # xs) (y # ys) =
     (if x = y then Suc (lcs xs ys) else max (lcs (x # xs) ys) (lcs xs (y # ys)))"

text \<open>
  \<open>round_quotient a b\<close> is \<^verbatim>\<open>int(round(a / b))\<close> for natural numbers with \<open>b\<close> positive: the
  quotient rounded to the nearest integer, ties to the even one.
\<close>

definition round_quotient :: "nat \<Rightarrow> nat \<Rightarrow> int" where
  "round_quotient a b =
     (if 2 * (a mod b) < b then int (a div b)
      else if b < 2 * (a mod b) then int (a div b) + 1
      else if even (a div b) then int (a div b) else int (a div b) + 1)"

definition fuzz_ratio :: "string \<Rightarrow> string \<Rightarrow> int" where
  "fuzz_ratio s1 s2 =
     (if s1 = s2 then 100
      else if s1 = [] \<or> s2 = [] then 0
      else round_quotient (200 * lcs s1 s2) (length s1 + length s2))"

text \<open>
  \<^verbatim>\<open>os.path.join\<close> of a directory and a relative file name.
\<close>

definition path_join :: "string \<Rightarrow> string \<Rightarrow> string" where
  "path_join dir name = dir @ ''/'' @ name"

text \<open>
  \<^verbatim>\<open>d.update({k: v})\<close> on a dictionary: a key that is present keeps its place and gets
  the new value, a new key goes to the end.
\<close>

fun dict_update :: "'k \<Rightarrow> 'v \<Rightarrow> ('k \<times> 'v) list \<Rightarrow> ('k \<times> 'v) list" where
  "dict_update k v [] = [(k, v)]"
| "dict_update k v ((k', v') # d) =
     (if k' = k then (k, v) # d else (k', v') # dict_update k v d)"

text \<open>
  \<^verbatim>\<open>df.groupby([key]).sum(numeric_only=True)["Debit Amount"].reset_index()\<close>: one row
  per distinct key, in ascending order of the key, holding the sum of the debit amounts
  of the rows with that key; rows whose key is null are dropped. The groups are built
  row by row: \<open>add_to_group\<close> adds an amount to the group of a key in a list of groups
  that is kept in ascending key order.
\<close>

fun add_to_group :: "string \<Rightarrow> rat \<Rightarrow> (string \<times> rat) list \<Rightarrow> (string \<times> rat) list" where
  "add_to_group k v [] = [(k, v)]"
| "add_to_group k v ((k', s) # gs) =
     (if k = k' then (k', s + v) # gs
      else if k < k' then (k, v) # (k', s) # gs
      else (k', s) # add_to_group k v gs)"

fun groupby_loop ::
  "(row \<Rightarrow> string option) \<Rightarrow> row list \<Rightarrow> (string \<times> rat) list \<Rightarrow> (string \<times> rat) list" where
  "groupby_loop key [] gs = gs"
| "groupby_loop key (r # df) gs =
     groupby_loop key df
       (case key r of None \<Rightarrow> gs | Some k \<Rightarrow> add_to_group k (debit_amount r) gs)"

definition groupby_sum :: "(row \<Rightarrow> string option) \<Rightarrow> row list \<Rightarrow> (string \<times> rat) list" where
  "groupby_sum key df = groupby_loop key df []"

text \<open>Float division, multiplication by a constant and rounding of a series element.\<close>

definition float_div :: "rat \<Rightarrow> rat \<Rightarrow> pyfloat" where
  "float_div x y =
     (if y = 0 then (if x = 0 then NaN else if 0 < x then PosInf else NegInf)
      else Finite (x / y))"

fun float_mul :: "pyfloat \<Rightarrow> rat \<Rightarrow> pyfloat" where
  "float_mul (Finite x) c = Finite (x * c)"
| "float_mul PosInf c = (if 0 < c then PosInf else if c < 0 then NegInf else NaN)"
| "float_mul NegInf c = (if 0 < c then NegInf else if c < 0 then PosInf else NaN)"
| "float_mul NaN c = NaN"

fun float_round :: "pyfloat \<Rightarrow> pyfloat" where
  "float_round (Finite x) = Finite (of_int (round_half_even x))"
| "float_round PosInf = PosInf"
| "float_round NegInf = NegInf"
| "float_round NaN = NaN"

section \<open>The tracker\<close>

subsection \<open>Loading\<close>

text \<open>
  \<^verbatim>\<open>__init__\<close>, with the statement named by the caller (the interactive
  \<^verbatim>\<open>select_statement\<close> is outside the model). A file that is missing or does not parse to
  the expected document stops the construction.
\<close>

definition read_csv :: "files \<Rightarrow> string \<Rightarrow> py_error + row list" where
  "read_csv fs path =
     (case fs path of
        None \<Rightarrow> Inl FileNotFoundError
      | Some (Csv rows) \<Rightarrow> Inr rows
      | Some _ \<Rightarrow> Inl ParseError)"

definition load_merchant_mapping :: "files \<Rightarrow> string \<Rightarrow> py_error + merchant_dict" where
  "load_merchant_mapping fs path =
     (case fs path of
        None \<Rightarrow> Inl FileNotFoundError
      | Some (MerchantJson m) \<Rightarrow> Inr m
      | Some _ \<Rightarrow> Inl ParseError)"

definition load_family_mapping :: "files \<Rightarrow> string \<Rightarrow> py_error + family_dict" where
  "load_family_mapping fs path =
     (case fs path of
        None \<Rightarrow> Inl FileNotFoundError
      | Some (FamilyJson m) \<Rightarrow> Inr m
      | Some _ \<Rightarrow> Inl ParseError)"

definition init ::
  "files \<Rightarrow> string \<Rightarrow> string \<Rightarrow> string \<Rightarrow> string \<Rightarrow> py_error + expense_tracker" where
  "init fs stmt statements_dir merchant_mapping_path family_mapping_path =
     (case read_csv fs (path_join statements_dir stmt) of
        Inl e \<Rightarrow> Inl e
      | Inr rows \<Rightarrow>
          (case load_merchant_mapping fs merchant_mapping_path of
             Inl e \<Rightarrow> Inl e
           | Inr m \<Rightarrow>
               (case load_family_mapping fs family_mapping_path of
                  Inl e \<Rightarrow> Inl e
                | Inr fm \<Rightarrow>
                    Inr \<lparr>statement_name = stmt, statement = rows, merchant_mapping = m,
                         expense_category_family_mapping = fm\<rparr>)))"

subsection \<open>Categorisation\<close>

text \<open>\<^verbatim>\<open>add_merchant_category\<close>: \<^verbatim>\<open>dict.get\<close> on the description, \<open>None\<close> for a missing key.\<close>

definition add_merchant_category :: "expense_tracker \<Rightarrow> row \<Rightarrow> row" where
  "add_merchant_category self r =
     r\<lparr>category := map_of (merchant_mapping self) (transaction_description r)\<rparr>"

subsection \<open>Reconciliation\<close>

text \<open>
  The inner loop of \<^verbatim>\<open>process_unrecognized_merchants\<close>: it walks the mapping in iteration
  order and stops at the first key that scores 80 or more against the merchant, both
  in lower case. The result is the value stored under that key
  (\<^verbatim>\<open>self.merchant_mapping[mapped_merchant]\<close>), or \<open>None\<close> when the loop ends without a
  \<^verbatim>\<open>break\<close>.
\<close>

fun find_match :: "(string \<Rightarrow> string \<Rightarrow> int) \<Rightarrow> string \<Rightarrow> merchant_dict \<Rightarrow> string option" where
  "find_match ratio merchant [] = None"
| "find_match ratio merchant ((mapped_merchant, cat) # rest) =
     (if 80 \<le> ratio (lower merchant) (lower mapped_merchant) then Some cat
      else find_match ratio merchant rest)"

text \<open>
  The body of the outer loop for one merchant, on the mapping as it stands and the list
  of merchants still unrecognised so far.
\<close>

definition reconcile_merchant ::
  "(string \<Rightarrow> string \<Rightarrow> int) \<Rightarrow> string \<Rightarrow> merchant_dict \<times> string list
     \<Rightarrow> merchant_dict \<times> string list" where
  "reconcile_merchant ratio merchant st =
     (case find_match ratio merchant (fst st) of
        Some cat \<Rightarrow> (dict_update merchant cat (fst st), snd st)
      | None \<Rightarrow> (fst st, snd st @ [merchant]))"

text \<open>
  The outer loop. \<open>merchants\<close> is the Python set of unrecognised descriptions, given as
  the list of its elements in the order in which the set iterates.
\<close>

fun reconcile_loop ::
  "(string \<Rightarrow> string \<Rightarrow> int) \<Rightarrow> string list \<Rightarrow> merchant_dict \<times> string list
     \<Rightarrow> merchant_dict \<times> string list" where
  "reconcile_loop ratio [] st = st"
| "reconcile_loop ratio (merchant # merchants) st =
     reconcile_loop ratio merchants (reconcile_merchant ratio merchant st)"

text \<open>
  \<^verbatim>\<open>process_unrecognized_merchants\<close>: the loop, then the dump of the mapping to the file
  named by the module constant, then the printed list of merchants still unrecognised
  (the third component of the result).
\<close>

definition process_unrecognized_merchants ::
  "(string \<Rightarrow> string \<Rightarrow> int) \<Rightarrow> string list \<Rightarrow> expense_tracker \<times> files
     \<Rightarrow> expense_tracker \<times> files \<times> string list" where
  "process_unrecognized_merchants ratio merchants w =
     (let res = reconcile_loop ratio merchants (merchant_mapping (fst w), []);
          self' = (fst w)\<lparr>merchant_mapping := fst res\<rparr>;
          fs' = (snd w)(MERCHANT_MAPPING \<mapsto> MerchantJson (fst res))
      in (self', fs', snd res))"

subsection \<open>Category families\<close>

text \<open>\<^verbatim>\<open>row["Category"] in children\<close>: a null category is in no list of names.\<close>

definition in_children :: "string option \<Rightarrow> string list \<Rightarrow> bool" where
  "in_children c children = (case c of None \<Rightarrow> False | Some n \<Rightarrow> n \<in> set children)"

text \<open>
  The loop of \<^verbatim>\<open>add_category_family\<close> over the items of the family mapping: a family that
  holds the category is assigned and ends the loop, any other family assigns the default
  and the loop goes on.
\<close>

fun family_loop :: "family_dict \<Rightarrow> row \<Rightarrow> row" where
  "family_loop [] r = r"
| "family_loop ((family, children) # rest) r =
     (if in_children (category r) children then r\<lparr>category_family := Some family\<rparr>
      else family_loop rest (r\<lparr>category_family := Some ''Wants''\<rparr>))"

definition add_category_family :: "expense_tracker \<Rightarrow> row \<Rightarrow> row" where
  "add_category_family self r = family_loop (expense_category_family_mapping self) r"

subsection \<open>Aggregates\<close>

text \<open>
  \<^verbatim>\<open>get_expenses_by_category_families\<close>: the totals per family and the percentage column,
  each total divided by the sum of the totals, times 100, rounded to no decimals. A row
  of the result is family, total, percentage.
\<close>

definition get_expenses_by_category_families :: "row list \<Rightarrow> (string \<times> rat \<times> pyfloat) list" where
  "get_expenses_by_category_families df =
     (let g = groupby_sum category_family df;
          total = sum_list (map snd g)
      in map (\<lambda>(k, s). (k, s, float_round (float_mul (float_div s total) 100))) g)"

text \<open>The extended view of \<^verbatim>\<open>make_reports\<close>: the totals per category.\<close>

definition expenses_by_category :: "row list \<Rightarrow> (string \<times> rat) list" where
  "expenses_by_category df = groupby_sum category df"

subsection \<open>The pipeline\<close>

text \<open>
  The set of unrecognised merchants of \<^verbatim>\<open>process_transactions\<close>: the descriptions of the
  rows with a null category, each once, here in the order of their first row.
\<close>

definition unrecognized_merchants :: "row list \<Rightarrow> string list" where
  "unrecognized_merchants df =
     remdups (map transaction_description (filter (\<lambda>r. category r = None) df))"

text \<open>
  \<^verbatim>\<open>process_transactions\<close> (the parsing of the dates apart): drop the credits, add the
  categories, collect and process the unrecognised merchants, add the families. The
  order in which Python iterates over the set is not fixed by its elements; \<open>set_order\<close>
  stands for it, as a rearrangement of the collected list.
\<close>

definition process_transactions ::
  "(string \<Rightarrow> string \<Rightarrow> int) \<Rightarrow> (string list \<Rightarrow> string list) \<Rightarrow> expense_tracker \<times> files
     \<Rightarrow> expense_tracker \<times> files \<times> string list" where
  "process_transactions ratio set_order w =
     (let self = fst w;
          debits = filter (\<lambda>r. credit_amount r = None) (statement self);
          categorized = map (add_merchant_category self) debits;
          self1 = self\<lparr>statement := categorized\<rparr>;
          res = process_unrecognized_merchants ratio
                  (set_order (unrecognized_merchants categorized)) (self1, snd w);
          self2 = fst res
      in (self2\<lparr>statement := map (add_category_family self2) (statement self2)\<rparr>, snd res))"

section \<open>Functions used in the statements\<close>

text \<open>
  Functions to state what the aggregates hold: the total that a list of groups gives
  for a key (0 when the key has no group), the sum of the debit amounts of the rows of a
  data frame whose key column holds a given key, and the grand total of a family
  aggregate, which is the sum of its totals.
\<close>

definition total_of :: "(string \<times> rat) list \<Rightarrow> string \<Rightarrow> rat" where
  "total_of gs k = (case map_of gs k of None \<Rightarrow> 0 | Some s \<Rightarrow> s)"

definition debit_sum :: "(row \<Rightarrow> string option) \<Rightarrow> string \<Rightarrow> row list \<Rightarrow> rat" where
  "debit_sum key k df = sum_list (map debit_amount (filter (\<lambda>r. key r = Some k) df))"

definition grand_total :: "(string \<times> rat \<times> pyfloat) list \<Rightarrow> rat" where
  "grand_total agg = sum_list (map (\<lambda>(k, s, p). s) agg)"

section \<open>Example data\<close>

text \<open>
  Concrete inputs at which the theorems below are instantiated and evaluated: a debit
  row as it comes from the statement, the same with a category or with a family set, two
  mappings, two trackers and the files the first one is loaded from.
\<close>

definition debit_row :: "string \<Rightarrow> rat \<Rightarrow> row" where
  "debit_row d a =
     \<lparr>transaction_date = ''01/02/2024'', transaction_description = d, debit_amount = a,
      credit_amount = None, category = None, category_family = None\<rparr>"

definition category_row :: "string \<Rightarrow> rat \<Rightarrow> row" where
  "category_row c a = (debit_row ''SHOP'' a)\<lparr>category := Some c\<rparr>"

definition family_row :: "string \<Rightarrow> rat \<Rightarrow> row" where
  "family_row f a = (debit_row ''SHOP'' a)\<lparr>category_family := Some f\<rparr>"

definition example_mapping :: merchant_dict where
  "example_mapping = [(''STARBUCKS'', ''Coffee''), (''STARBUCKS 1'', ''Snacks'')]"

definition example_families :: family_dict where
  "example_families = [(''Needs'', [''Groceries'', ''Rent'']), (''Fun'', [''Coffee'', ''Snacks''])]"

definition example_tracker :: expense_tracker where
  "example_tracker =
     \<lparr>statement_name = ''march.csv'',
      statement = [debit_row ''STARBUCKS'' 3, debit_row ''STARBUCKS 12'' 4, debit_row ''TESCO'' 25],
      merchant_mapping = example_mapping,
      expense_category_family_mapping = example_families\<rparr>"

definition example_files :: files where
  "example_files =
     [''./statements/march.csv'' \<mapsto>
        Csv [debit_row ''STARBUCKS'' 3, debit_row ''STARBUCKS 12'' 4, debit_row ''TESCO'' 25],
      ''my_mapping.json'' \<mapsto> MerchantJson example_mapping,
      ''expense_category_family_mapping.json'' \<mapsto> FamilyJson example_families]"

definition single_tracker :: expense_tracker where
  "single_tracker =
     \<lparr>statement_name = ''april.csv'',
      statement = [debit_row ''STARBUCKS 12'' 4, debit_row ''STARBUCKS 12345'' 6],
      merchant_mapping = [(''STARBUCKS'', ''Coffee'')],
      expense_category_family_mapping = example_families\<rparr>"

section \<open>The rounding of the similarity score\<close>

text \<open>\<open>round_quotient\<close> is the rounding of the quotient to the nearest integer, ties to even.\<close>

lemma round_quotient_eq:
  assumes "0 < b"
  shows "round_quotient a b = round_half_even (of_nat a / of_nat b)"
proof -
  let ?x = "(of_nat a / of_nat b) :: rat"
  have fl: "\<lfloor>?x\<rfloor> = int (a div b)"
    by (simp add: floor_divide_of_nat_eq)
  have dec: "(of_nat a :: rat) = of_nat (a div b) * of_nat b + of_nat (a mod b)"
    by (metis of_nat_add of_nat_mult div_mult_mod_eq)
  have "?x = of_nat (a div b) + of_nat (a mod b) / of_nat b"
    using dec assms by (simp add: field_simps)
  then have d: "?x - of_int \<lfloor>?x\<rfloor> = of_nat (a mod b) / of_nat b"
    unfolding fl by simp
  have two: "(2 :: rat) * of_nat n = of_nat (2 * n)" for n
    by simp
  from assms have lt: "of_nat (a mod b) / (of_nat b :: rat) < 1 / 2 \<longleftrightarrow> 2 * (a mod b) < b"
    by (simp add: field_simps two del: of_nat_mult of_nat_numeral)
  from assms have gt: "1 / 2 < of_nat (a mod b) / (of_nat b :: rat) \<longleftrightarrow> b < 2 * (a mod b)"
    by (simp add: field_simps two del: of_nat_mult of_nat_numeral)
  show ?thesis
    unfolding round_quotient_def round_half_even_def Let_def d lt gt
    by (simp add: fl)
qed

section \<open>Categorisation by exact lookup\<close>

lemma map_of_eq_None_keys: "map_of m k = None \<longleftrightarrow> k \<notin> fst ` set m"
  by (simp add: map_of_eq_None_iff)

text \<open>
  C3. Categorisation looks the description up with an exact, case-sensitive match:
  the category becomes the mapped value when the description is a key of the merchant
  mapping and stays unset when it is not. The operation is total (it returns a row for
  every row and mapping, there is no error result) and leaves the other columns alone.
\<close>

theorem add_merchant_category_exact_lookup:
  "category (add_merchant_category self r)
     = map_of (merchant_mapping self) (transaction_description r)
   \<and> (\<forall>v. distinct (map fst (merchant_mapping self))
          \<and> (transaction_description r, v) \<in> set (merchant_mapping self)
        \<longrightarrow> category (add_merchant_category self r) = Some v)
   \<and> (transaction_description r \<notin> fst ` set (merchant_mapping self)
        \<longrightarrow> category (add_merchant_category self r) = None)
   \<and> transaction_description (add_merchant_category self r) = transaction_description r
   \<and> debit_amount (add_merchant_category self r) = debit_amount r
   \<and> transaction_date (add_merchant_category self r) = transaction_date r"
  by (simp add: add_merchant_category_def map_of_eq_None_keys)

theorem add_merchant_category_exact_lookup_witness:
  "category (add_merchant_category example_tracker (debit_row ''STARBUCKS'' 3)) = Some ''Coffee''
   \<and> category (add_merchant_category example_tracker (debit_row ''Starbucks'' 3)) = None"
proof -
  have a: "distinct (map fst (merchant_mapping example_tracker))
      \<and> (transaction_description (debit_row ''STARBUCKS'' 3), ''Coffee'')
          \<in> set (merchant_mapping example_tracker)"
    by code_simp
  have b: "transaction_description (debit_row ''Starbucks'' 3)
      \<notin> fst ` set (merchant_mapping example_tracker)"
    by code_simp
  from a add_merchant_category_exact_lookup [of example_tracker "debit_row ''STARBUCKS'' 3"]
  have "category (add_merchant_category example_tracker (debit_row ''STARBUCKS'' 3)) = Some ''Coffee''"
    by blast
  moreover from b add_merchant_category_exact_lookup [of example_tracker "debit_row ''Starbucks'' 3"]
  have "category (add_merchant_category example_tracker (debit_row ''Starbucks'' 3)) = None"
    by blast
  ultimately show ?thesis by blast
qed

section \<open>Reconciliation by approximate matching\<close>




lemma map_of_dict_update_other: "k' \<noteq> k \<Longrightarrow> map_of (dict_update k v d) k' = map_of d k'"
  by (induction d) auto

lemma dict_update_new: "k \<notin> fst ` set d \<Longrightarrow> dict_update k v d = d @ [(k, v)]"
  by (induction d) auto




lemma reconcile_merchant_new_key:
  "k \<notin> fst ` set m \<Longrightarrow>
   (\<exists>cat. reconcile_merchant ratio k (m, still) = (m @ [(k, cat)], still))
   \<or> reconcile_merchant ratio k (m, still) = (m, still @ [k])"
  by (cases "find_match ratio k m") (simp_all add: reconcile_merchant_def dict_update_new)

lemma reconcile_loop_grows:
  "distinct ms \<Longrightarrow> set ms \<inter> fst ` set m = {} \<Longrightarrow>
   \<exists>new. fst (reconcile_loop ratio ms (m, still)) = m @ new \<and> fst ` set new \<subseteq> set ms"
proof (induction ms arbitrary: m still)
  case Nil
  then show ?case by simp
next
  case (Cons d ms)
  from Cons.prems have fresh: "d \<notin> fst ` set m" and d_once: "d \<notin> set ms"
    and dist: "distinct ms" and disj: "set ms \<inter> fst ` set m = {}"
    by auto
  from reconcile_merchant_new_key [OF fresh, of ratio still]
  show ?case
  proof
    assume "\<exists>cat. reconcile_merchant ratio d (m, still) = (m @ [(d, cat)], still)"
    then obtain cat where step: "reconcile_merchant ratio d (m, still) = (m @ [(d, cat)], still)"
      by blast
    from disj d_once have "set ms \<inter> fst ` set (m @ [(d, cat)]) = {}"
      by auto
    from Cons.IH [OF dist this, of still] obtain new
      where "fst (reconcile_loop ratio ms (m @ [(d, cat)], still)) = (m @ [(d, cat)]) @ new"
        and "fst ` set new \<subseteq> set ms"
      by blast
    then have "fst (reconcile_loop ratio (d # ms) (m, still)) = m @ ((d, cat) # new)
        \<and> fst ` set ((d, cat) # new) \<subseteq> set (d # ms)"
      using step by auto
    then show ?thesis by blast
  next
    assume step: "reconcile_merchant ratio d (m, still) = (m, still @ [d])"
    from Cons.IH [OF dist disj, of "still @ [d]"] obtain new
      where "fst (reconcile_loop ratio ms (m, still @ [d])) = m @ new"
        and "fst ` set new \<subseteq> set ms"
      by blast
    then have "fst (reconcile_loop ratio (d # ms) (m, still)) = m @ new
        \<and> fst ` set new \<subseteq> set (d # ms)"
      using step by auto
    then show ?thesis by blast
  qed
qed

lemma map_of_append_keeps: "map_of m k = Some v \<Longrightarrow> map_of (m @ new) k = Some v"
  by (simp add: map_add_Some_iff)

lemma process_unrecognized_merchants_mapping:
  "merchant_mapping (fst (process_unrecognized_merchants ratio merchants (self, fs)))
     = fst (reconcile_loop ratio merchants (merchant_mapping self, []))"
  by (simp add: process_unrecognized_merchants_def Let_def)

lemma process_unrecognized_merchants_grows:
  assumes "distinct merchants"
    and "\<forall>d \<in> set merchants. map_of (merchant_mapping self) d = None"
  shows "\<exists>new. merchant_mapping (fst (process_unrecognized_merchants ratio merchants (self, fs)))
             = merchant_mapping self @ new
           \<and> fst ` set new \<subseteq> set merchants"
proof -
  from assms(2) have "set merchants \<inter> fst ` set (merchant_mapping self) = {}"
    by (auto simp: map_of_eq_None_keys)
  from reconcile_loop_grows [OF assms(1) this, of ratio "[]"]
  show ?thesis
    by (simp only: process_unrecognized_merchants_mapping)
qed

text \<open>
  C9. A reconciliation pass over unresolved descriptions (a set, so no description
  twice, and none of them a key of the mapping, which is what made them unresolved)
  only appends to the mapping: the mapping afterwards is the mapping before followed by
  new entries, every key of a new entry is one of the descriptions given, and every key
  that was mapped before is still mapped to the same category.
\<close>

theorem reconciliation_only_grows:
  assumes "distinct merchants"
    and "\<forall>d \<in> set merchants. map_of (merchant_mapping self) d = None"
  shows "(\<exists>new. merchant_mapping (fst (process_unrecognized_merchants ratio merchants (self, fs)))
             = merchant_mapping self @ new
           \<and> fst ` set new \<subseteq> set merchants)
     \<and> (\<forall>k v. map_of (merchant_mapping self) k = Some v
           \<longrightarrow> map_of (merchant_mapping
                  (fst (process_unrecognized_merchants ratio merchants (self, fs)))) k = Some v)
     \<and> (\<forall>k \<in> fst ` set (merchant_mapping
                  (fst (process_unrecognized_merchants ratio merchants (self, fs)))).
           k \<in> fst ` set (merchant_mapping self) \<or> k \<in> set merchants)"
proof -
  from process_unrecognized_merchants_grows [OF assms, of ratio fs] obtain new
    where eq: "merchant_mapping (fst (process_unrecognized_merchants ratio merchants (self, fs)))
             = merchant_mapping self @ new"
      and keys: "fst ` set new \<subseteq> set merchants"
    by blast
  have "\<forall>k v. map_of (merchant_mapping self) k = Some v
           \<longrightarrow> map_of (merchant_mapping self @ new) k = Some v"
    by (simp add: map_of_append_keeps)
  moreover have "\<forall>k \<in> fst ` set (merchant_mapping self @ new).
      k \<in> fst ` set (merchant_mapping self) \<or> k \<in> set merchants"
    using keys by auto
  ultimately show ?thesis
    using eq keys by auto
qed

theorem reconciliation_only_grows_witness:
  "(\<exists>new. merchant_mapping
            (fst (process_unrecognized_merchants fuzz_ratio [''STARBUCKS 12'', ''TESCO'']
                   (example_tracker, Map.empty)))
          = merchant_mapping example_tracker @ new
        \<and> fst ` set new \<subseteq> set [''STARBUCKS 12'', ''TESCO''])
   \<and> map_of (merchant_mapping
        (fst (process_unrecognized_merchants fuzz_ratio [''STARBUCKS 12'', ''TESCO'']
               (example_tracker, Map.empty)))) ''STARBUCKS 1'' = Some ''Snacks''"
proof -
  have h1: "distinct [''STARBUCKS 12'', ''TESCO'']"
    by code_simp
  have h2: "\<forall>d \<in> set [''STARBUCKS 12'', ''TESCO'']. map_of (merchant_mapping example_tracker) d = None"
    by code_simp
  have h3: "map_of (merchant_mapping example_tracker) ''STARBUCKS 1'' = Some ''Snacks''"
    by code_simp
  note t = reconciliation_only_grows [OF h1 h2, of fuzz_ratio Map.empty]
  from t [THEN conjunct1] t [THEN conjunct2, THEN conjunct1, THEN spec, THEN spec, THEN mp, OF h3]
  show ?thesis by (rule conjI)
qed

lemma unrecognized_merchants_distinct: "distinct (unrecognized_merchants df)"
  by (simp add: unrecognized_merchants_def)

lemma unrecognized_merchants_not_keys:
  "\<forall>d \<in> set (unrecognized_merchants (map (add_merchant_category self) df)).
     map_of (merchant_mapping self) d = None"
  by (auto simp: unrecognized_merchants_def add_merchant_category_def)

lemma process_transactions_mapping_grows:
  assumes "\<And>xs. distinct xs \<Longrightarrow> distinct (set_order xs) \<and> set (set_order xs) = set xs"
  shows "\<exists>new. merchant_mapping (fst (process_transactions ratio set_order (self, fs)))
             = merchant_mapping self @ new
           \<and> fst ` set new
               \<subseteq> transaction_description ` set (statement self)"
proof -
  let ?debits = "filter (\<lambda>r. credit_amount r = None) (statement self)"
  let ?cat = "map (add_merchant_category self) ?debits"
  let ?ms = "set_order (unrecognized_merchants ?cat)"
  let ?self1 = "self\<lparr>statement := ?cat\<rparr>"
  from assms [OF unrecognized_merchants_distinct, of ?cat]
  have d: "distinct ?ms" and s: "set ?ms = set (unrecognized_merchants ?cat)"
    by blast+
  from unrecognized_merchants_not_keys [of self ?debits] s
  have nk: "\<forall>d \<in> set ?ms. map_of (merchant_mapping ?self1) d = None"
    by simp
  from process_unrecognized_merchants_grows [OF d nk, of ratio fs] obtain new
    where eq: "merchant_mapping (fst (process_unrecognized_merchants ratio ?ms (?self1, fs)))
             = merchant_mapping self @ new"
      and keys: "fst ` set new \<subseteq> set ?ms"
    by auto
  have "set ?ms \<subseteq> transaction_description ` set (statement self)"
    unfolding s by (auto simp: unrecognized_merchants_def add_merchant_category_def)
  with keys have "fst ` set new \<subseteq> transaction_description ` set (statement self)"
    by blast
  moreover have "merchant_mapping (fst (process_transactions ratio set_order (self, fs)))
      = merchant_mapping (fst (process_unrecognized_merchants ratio ?ms (?self1, fs)))"
    by (simp add: process_transactions_def Let_def)
  ultimately show ?thesis
    using eq by auto
qed

section \<open>Grouping and summing\<close>

lemma add_to_group_keys: "fst ` set (add_to_group k v gs) = insert k (fst ` set gs)"
proof (induction gs)
  case Nil
  show ?case by simp
next
  case (Cons g gs)
  obtain k' s where g: "g = (k', s)" by (cases g)
  show ?case
  proof (cases "k = k'")
    case True
    with g show ?thesis by (simp add: insert_absorb2)
  next
    case ne: False
    show ?thesis
    proof (cases "k < k'")
      case True
      with ne g show ?thesis by simp
    next
      case False
      with ne g Cons.IH show ?thesis by (simp add: insert_commute)
    qed
  qed
qed

lemma add_to_group_sorted:
  "sorted_wrt (<) (map fst gs) \<Longrightarrow> sorted_wrt (<) (map fst (add_to_group k v gs))"
proof (induction gs)
  case Nil
  then show ?case by simp
next
  case (Cons g gs)
  obtain k' s where g: "g = (k', s)" by (cases g)
  from Cons.prems g have above: "\<forall>y \<in> fst ` set gs. k' < y" and tl: "sorted_wrt (<) (map fst gs)"
    by auto
  show ?case
  proof (cases "k = k'")
    case True
    with Cons.prems g show ?thesis by simp
  next
    case False
    show ?thesis
    proof (cases "k < k'")
      case True
      with above have "\<forall>y \<in> fst ` set gs. k < y" by auto
      with True False Cons.prems g show ?thesis by auto
    next
      case False
      with \<open>k \<noteq> k'\<close> have "k' < k" by auto
      with above have "\<forall>y \<in> fst ` set (add_to_group k v gs). k' < y"
        by (simp add: add_to_group_keys)
      with False \<open>k \<noteq> k'\<close> g Cons.IH [OF tl] show ?thesis by auto
    qed
  qed
qed


lemma total_of_add_to_group:
  "sorted_wrt (<) (map fst gs) \<Longrightarrow>
   total_of (add_to_group k v gs) k' = (if k' = k then v else 0) + total_of gs k'"
proof (induction gs)
  case Nil
  then show ?case by (simp add: total_of_def)
next
  case (Cons g gs)
  obtain k0 s where g: "g = (k0, s)" by (cases g)
  from Cons.prems g have above: "\<forall>y \<in> fst ` set gs. k0 < y" and tl: "sorted_wrt (<) (map fst gs)"
    by auto
  show ?case
  proof (cases "k = k0")
    case True
    with g show ?thesis by (simp add: total_of_def)
  next
    case ne: False
    show ?thesis
    proof (cases "k < k0")
      case True
      with above have "k \<notin> fst ` set gs" by auto
      then have "map_of gs k = None" by (simp add: map_of_eq_None_keys)
      with True ne g show ?thesis by (simp add: total_of_def)
    next
      case False
      from Cons.IH [OF tl] have "total_of (add_to_group k v gs) k'
          = (if k' = k then v else 0) + total_of gs k'" .
      with False ne g show ?thesis by (auto simp: total_of_def)
    qed
  qed
qed


lemma groupby_loop_sorted:
  "sorted_wrt (<) (map fst gs) \<Longrightarrow> sorted_wrt (<) (map fst (groupby_loop key df gs))"
  by (induction df arbitrary: gs) (auto simp: add_to_group_sorted split: option.splits)

lemma groupby_loop_total_of:
  "sorted_wrt (<) (map fst gs) \<Longrightarrow>
   total_of (groupby_loop key df gs) k = total_of gs k + debit_sum key k df"
proof (induction df arbitrary: gs)
  case Nil
  then show ?case by (simp add: debit_sum_def)
next
  case (Cons r df)
  show ?case
  proof (cases "key r")
    case None
    with Cons.IH [OF Cons.prems] show ?thesis by (simp add: debit_sum_def)
  next
    case (Some k0)
    from Cons.IH [OF add_to_group_sorted [OF Cons.prems], of k0 "debit_amount r"]
    have "total_of (groupby_loop key df (add_to_group k0 (debit_amount r) gs)) k
        = total_of (add_to_group k0 (debit_amount r) gs) k + debit_sum key k df" .
    with Some total_of_add_to_group [OF Cons.prems, of k0 "debit_amount r" k]
    show ?thesis by (simp add: debit_sum_def)
  qed
qed


lemma groupby_sum_sorted: "sorted_wrt (<) (map fst (groupby_sum key df))"
  by (simp add: groupby_sum_def groupby_loop_sorted)


lemma groupby_sum_entry:
  assumes "(k, s) \<in> set (groupby_sum key df)"
  shows "s = debit_sum key k df"
proof -
  from groupby_sum_sorted [of key df] have "distinct (map fst (groupby_sum key df))"
    by (simp add: strict_sorted_iff)
  with assms have "map_of (groupby_sum key df) k = Some s"
    by simp
  then have "total_of (groupby_sum key df) k = s"
    by (simp add: total_of_def)
  moreover have "total_of (groupby_sum key df) k = debit_sum key k df"
    using groupby_loop_total_of [of "[]" key df k] by (simp add: groupby_sum_def total_of_def)
  ultimately show ?thesis by simp
qed




section \<open>Percentages of the family aggregate\<close>





lemma debit_sum_nonneg: "\<forall>r \<in> set df. 0 \<le> debit_amount r \<Longrightarrow> 0 \<le> debit_sum key k df"
  by (auto simp: debit_sum_def intro!: sum_list_nonneg)

lemma groupby_sum_nonneg:
  assumes "\<forall>r \<in> set df. 0 \<le> debit_amount r"
  shows "\<forall>s \<in> set (map snd (groupby_sum key df)). 0 \<le> s"
proof
  fix s assume "s \<in> set (map snd (groupby_sum key df))"
  then obtain k where "(k, s) \<in> set (groupby_sum key df)" by auto
  then have "s = debit_sum key k df" by (rule groupby_sum_entry)
  with assms show "0 \<le> s" by (simp add: debit_sum_nonneg)
qed

lemma totals_of_rows:
  "(\<lambda>(k, s, p). s) \<circ> (\<lambda>(k, s). (k, s, f s)) = snd"
  by (auto simp: fun_eq_iff)

lemma grand_total_families:
  "grand_total (get_expenses_by_category_families df)
     = sum_list (map snd (groupby_sum category_family df))"
  by (simp add: grand_total_def get_expenses_by_category_families_def Let_def totals_of_rows)

lemma families_entry:
  assumes "(k, s, p) \<in> set (get_expenses_by_category_families df)"
  shows "(k, s) \<in> set (groupby_sum category_family df)
     \<and> p = float_round (float_mul
             (float_div s (grand_total (get_expenses_by_category_families df))) 100)"
  using assms unfolding grand_total_families
  by (auto simp: get_expenses_by_category_families_def Let_def)



section \<open>A grand total of zero\<close>

theorem zero_total_percentage_counterexample:
  "grand_total (get_expenses_by_category_families [family_row ''Wants'' 0]) = 0
   \<and> get_expenses_by_category_families [family_row ''Wants'' 0] = [(''Wants'', 0, NaN)]
   \<and> NaN \<noteq> Finite 0"
  by code_simp

text \<open>
  C4, amended. Aggregating an empty collection gives an empty breakdown. When the grand
  total is zero and the collection is not empty there is no short cut: the division by
  zero is carried out in floating point, where it raises nothing, and the percentage of
  a group is not a number when the group's total is zero (the only case when no debit
  amount is negative) and infinite otherwise. It is never zero.
\<close>

theorem aggregate_empty_or_zero_total:
  "get_expenses_by_category_families [] = []
   \<and> (grand_total (get_expenses_by_category_families df) = 0 \<longrightarrow>
        (\<forall>(k, s, p) \<in> set (get_expenses_by_category_families df).
           p = (if s = 0 then NaN else if 0 < s then PosInf else NegInf)))
   \<and> (grand_total (get_expenses_by_category_families df) = 0
        \<and> (\<forall>r \<in> set df. 0 \<le> debit_amount r) \<longrightarrow>
        (\<forall>(k, s, p) \<in> set (get_expenses_by_category_families df). s = 0 \<and> p = NaN))"
proof (intro conjI impI)
  show "get_expenses_by_category_families [] = []"
    by (simp add: get_expenses_by_category_families_def groupby_sum_def)
next
  assume z: "grand_total (get_expenses_by_category_families df) = 0"
  show "\<forall>(k, s, p) \<in> set (get_expenses_by_category_families df).
           p = (if s = 0 then NaN else if 0 < s then PosInf else NegInf)"
  proof (intro ballI, clarify)
    fix k s p
    assume "(k, s, p) \<in> set (get_expenses_by_category_families df)"
    from families_entry [OF this] z
    show "p = (if s = 0 then NaN else if 0 < s then PosInf else NegInf)"
      by (simp add: float_div_def)
  qed
next
  assume "grand_total (get_expenses_by_category_families df) = 0
        \<and> (\<forall>r \<in> set df. 0 \<le> debit_amount r)"
  then have z: "grand_total (get_expenses_by_category_families df) = 0"
    and nn: "\<forall>r \<in> set df. 0 \<le> debit_amount r"
    by blast+
  note nonneg = groupby_sum_nonneg [OF nn, of category_family]
  from z have "sum_list (map snd (groupby_sum category_family df)) = 0"
    by (simp only: grand_total_families)
  with nonneg have zero: "\<forall>s \<in> set (map snd (groupby_sum category_family df)). s = 0"
    by (simp only: sum_list_nonneg_eq_0_iff)
  show "\<forall>(k, s, p) \<in> set (get_expenses_by_category_families df). s = 0 \<and> p = NaN"
  proof (intro ballI, clarify)
    fix k s p
    assume "(k, s, p) \<in> set (get_expenses_by_category_families df)"
    from families_entry [OF this]
    have mem: "(k, s) \<in> set (groupby_sum category_family df)"
      and p: "p = float_round (float_mul
             (float_div s (grand_total (get_expenses_by_category_families df))) 100)"
      by blast+
    from mem have "s \<in> set (map snd (groupby_sum category_family df))"
      by force
    with zero have "s = 0" by blast
    with p z show "s = 0 \<and> p = NaN"
      by (simp add: float_div_def)
  qed
qed

theorem aggregate_empty_or_zero_total_witness:
  "grand_total (get_expenses_by_category_families [family_row ''Wants'' 0]) = 0
   \<and> fst (snd (hd (get_expenses_by_category_families [family_row ''Wants'' 0]))) = 0
   \<and> snd (snd (hd (get_expenses_by_category_families [family_row ''Wants'' 0]))) = NaN"
proof -
  let ?df = "[family_row ''Wants'' 0]"
  have h1: "grand_total (get_expenses_by_category_families ?df) = 0
      \<and> (\<forall>r \<in> set ?df. 0 \<le> debit_amount r)"
    by code_simp
  have h2: "hd (get_expenses_by_category_families ?df)
      \<in> set (get_expenses_by_category_families ?df)"
    by code_simp
  note t = aggregate_empty_or_zero_total [of ?df, THEN conjunct2, THEN conjunct2, THEN mp,
      OF h1, THEN bspec, OF h2, unfolded case_prod_beta]
  from h1 [THEN conjunct1] t show ?thesis by (intro conjI) blast+
qed

section \<open>Category families\<close>







text \<open>
  C2. With an empty family mapping the loop of \<open>add_category_family\<close> has no iteration, so
  nothing is assigned: the row comes back as it was, its family unset and not
  \<open>''Wants''\<close>.
\<close>

theorem add_category_family_empty_mapping:
  "add_category_family (self\<lparr>expense_category_family_mapping := []\<rparr>) r = r
   \<and> category_family
        (add_category_family (example_tracker\<lparr>expense_category_family_mapping := []\<rparr>)
           (category_row ''Groceries'' 12)) = None
   \<and> category_family
        (add_category_family (example_tracker\<lparr>expense_category_family_mapping := []\<rparr>)
           (debit_row ''TESCO'' 25)) = None"
proof (intro conjI)
  show "add_category_family (self\<lparr>expense_category_family_mapping := []\<rparr>) r = r"
    by (simp add: add_category_family_def)
  show "category_family
        (add_category_family (example_tracker\<lparr>expense_category_family_mapping := []\<rparr>)
           (category_row ''Groceries'' 12)) = None"
    by code_simp
  show "category_family
        (add_category_family (example_tracker\<lparr>expense_category_family_mapping := []\<rparr>)
           (debit_row ''TESCO'' 25)) = None"
    by code_simp
qed

section \<open>Unresolved transactions in the two views\<close>








section \<open>Persistence of the merchant mapping\<close>

text \<open>
  The dump goes to the file named by the module constant: read back from there, the
  mapping is the one the tracker holds after the pass. Every other file is untouched.
\<close>

lemma dump_to_module_constant:
  "load_merchant_mapping (fst (snd (process_unrecognized_merchants ratio merchants (self, fs))))
       MERCHANT_MAPPING
     = Inr (merchant_mapping (fst (process_unrecognized_merchants ratio merchants (self, fs))))"
  by (simp add: process_unrecognized_merchants_def load_merchant_mapping_def Let_def)

lemma dump_leaves_other_files:
  "path \<noteq> MERCHANT_MAPPING \<Longrightarrow>
   fst (snd (process_unrecognized_merchants ratio merchants (self, fs))) path = fs path"
  by (simp add: process_unrecognized_merchants_def Let_def)

text \<open>
  C6. A tracker constructed with the merchant mapping at \<^verbatim>\<open>my_mapping.json\<close> learns
  \<^verbatim>\<open>STARBUCKS 12\<close> during the pass, but the pass writes the grown mapping to
  \<^verbatim>\<open>merchant_category_mapping.json\<close>; the configured file still holds the mapping as it was
  loaded, and a tracker constructed from it again does not have the new entry.
\<close>

theorem mapping_not_persisted_to_configured_path:
  "init example_files ''march.csv'' STATEMENTS_DIR ''my_mapping.json''
       EXPENSE_CATEGORY_FAMILY_MAPPING = Inr example_tracker
   \<and> merchant_mapping (fst (process_transactions fuzz_ratio (\<lambda>ms. ms)
        (example_tracker, example_files)))
       = [(''STARBUCKS'', ''Coffee''), (''STARBUCKS 1'', ''Snacks''), (''STARBUCKS 12'', ''Coffee'')]
   \<and> load_merchant_mapping (fst (snd (process_transactions fuzz_ratio (\<lambda>ms. ms)
        (example_tracker, example_files)))) ''my_mapping.json''
       = Inr [(''STARBUCKS'', ''Coffee''), (''STARBUCKS 1'', ''Snacks'')]
   \<and> load_merchant_mapping (fst (snd (process_transactions fuzz_ratio (\<lambda>ms. ms)
        (example_tracker, example_files)))) MERCHANT_MAPPING
       = Inr [(''STARBUCKS'', ''Coffee''), (''STARBUCKS 1'', ''Snacks''), (''STARBUCKS 12'', ''Coffee'')]
   \<and> init (fst (snd (process_transactions fuzz_ratio (\<lambda>ms. ms)
        (example_tracker, example_files)))) ''march.csv'' STATEMENTS_DIR ''my_mapping.json''
       EXPENSE_CATEGORY_FAMILY_MAPPING = Inr example_tracker"
proof (intro conjI)
  show "init example_files ''march.csv'' STATEMENTS_DIR ''my_mapping.json''
       EXPENSE_CATEGORY_FAMILY_MAPPING = Inr example_tracker"
    by code_simp
  show "merchant_mapping (fst (process_transactions fuzz_ratio (\<lambda>ms. ms)
        (example_tracker, example_files)))
       = [(''STARBUCKS'', ''Coffee''), (''STARBUCKS 1'', ''Snacks''), (''STARBUCKS 12'', ''Coffee'')]"
    by code_simp
  show "load_merchant_mapping (fst (snd (process_transactions fuzz_ratio (\<lambda>ms. ms)
        (example_tracker, example_files)))) ''my_mapping.json''
       = Inr [(''STARBUCKS'', ''Coffee''), (''STARBUCKS 1'', ''Snacks'')]"
    by code_simp
  show "load_merchant_mapping (fst (snd (process_transactions fuzz_ratio (\<lambda>ms. ms)
        (example_tracker, example_files)))) MERCHANT_MAPPING
       = Inr [(''STARBUCKS'', ''Coffee''), (''STARBUCKS 1'', ''Snacks''), (''STARBUCKS 12'', ''Coffee'')]"
    by code_simp
  show "init (fst (snd (process_transactions fuzz_ratio (\<lambda>ms. ms)
        (example_tracker, example_files)))) ''march.csv'' STATEMENTS_DIR ''my_mapping.json''
       EXPENSE_CATEGORY_FAMILY_MAPPING = Inr example_tracker"
    by code_simp
qed

section \<open>The order of the set of unrecognised merchants\<close>

theorem reconciliation_order_counterexample:
  "merchant_mapping (fst (process_transactions fuzz_ratio (\<lambda>ms. ms) (single_tracker, Map.empty)))
     = [(''STARBUCKS'', ''Coffee''), (''STARBUCKS 12'', ''Coffee''), (''STARBUCKS 12345'', ''Coffee'')]
   \<and> snd (snd (process_transactions fuzz_ratio (\<lambda>ms. ms) (single_tracker, Map.empty))) = []
   \<and> merchant_mapping (fst (process_transactions fuzz_ratio rev (single_tracker, Map.empty)))
     = [(''STARBUCKS'', ''Coffee''), (''STARBUCKS 12'', ''Coffee'')]
   \<and> snd (snd (process_transactions fuzz_ratio rev (single_tracker, Map.empty)))
     = [''STARBUCKS 12345'']"
proof (intro conjI)
  show "merchant_mapping (fst (process_transactions fuzz_ratio (\<lambda>ms. ms) (single_tracker, Map.empty)))
     = [(''STARBUCKS'', ''Coffee''), (''STARBUCKS 12'', ''Coffee''), (''STARBUCKS 12345'', ''Coffee'')]"
    by code_simp
  show "snd (snd (process_transactions fuzz_ratio (\<lambda>ms. ms) (single_tracker, Map.empty))) = []"
    by code_simp
  show "merchant_mapping (fst (process_transactions fuzz_ratio rev (single_tracker, Map.empty)))
     = [(''STARBUCKS'', ''Coffee''), (''STARBUCKS 12'', ''Coffee'')]"
    by code_simp
  show "snd (snd (process_transactions fuzz_ratio rev (single_tracker, Map.empty)))
     = [''STARBUCKS 12345'']"
    by code_simp
qed

lemma process_transactions_family_mapping:
  "expense_category_family_mapping
     (fst (process_unrecognized_merchants ratio merchants (self, fs)))
   = expense_category_family_mapping self
   \<and> statement (fst (process_unrecognized_merchants ratio merchants (self, fs)))
   = statement self"
  by (simp add: process_unrecognized_merchants_def Let_def)

text \<open>
  C8, amended. The operations are functions of their inputs and of the order in which
  the set of unrecognised merchants is iterated. The categorised transactions do not
  depend on that order (nor on the similarity function): they are the debit rows of the
  statement with the category looked up in the mapping as loaded and the family assigned
  from the family mapping; so the two aggregates do not depend on it either. The final
  merchant mapping and the list of merchants still unrecognised do depend on it.
\<close>

theorem categorised_statement_order_independent:
  "statement (fst (process_transactions ratio set_order w))
     = map (add_category_family (fst w))
         (map (add_merchant_category (fst w))
            (filter (\<lambda>r. credit_amount r = None) (statement (fst w))))
   \<and> statement (fst (process_transactions ratio order1 w))
       = statement (fst (process_transactions ratio order2 w))
   \<and> get_expenses_by_category_families (statement (fst (process_transactions ratio order1 w)))
       = get_expenses_by_category_families (statement (fst (process_transactions ratio order2 w)))
   \<and> expenses_by_category (statement (fst (process_transactions ratio order1 w)))
       = expenses_by_category (statement (fst (process_transactions ratio order2 w)))"
proof -
  have eq: "statement (fst (process_transactions ratio' order w))
     = map (add_category_family (fst w))
         (map (add_merchant_category (fst w))
            (filter (\<lambda>r. credit_amount r = None) (statement (fst w))))" for ratio' order
    by (simp add: process_transactions_def Let_def process_unrecognized_merchants_def
        add_category_family_def)
  show ?thesis
    by (simp only: eq)
qed

end
